theory Spec2Isabelle
  imports Main "HOL-Library.Word"
begin

section \<open>Table specification (meta/TableSpec.h)\<close>

datatype DataSource = Custom | S3 | LOCAL | KAFKA | GSHEET


datatype TimeType = STATIC | CURRENT | COLUMN | MACRO | PROVIDED

text \<open>\<open>size_t\<close> and \<open>int64_t\<close> are 64-bit words; \<open>unsigned\<close> is a 32-bit word.\<close>

type_synonym size_t = "64 word"
type_synonym int64_t = "64 word"
type_synonym unsigned = "32 word"

record TimeSpec =
  type :: TimeType
  unixTimeValue :: size_t
  colName :: string
  pattern :: string

text \<open>
  The fields \<open>serde\<close>, \<open>columnProps\<close>, \<open>accessSpec\<close>, \<open>bucketInfo\<close> and \<open>settings\<close> of
  \<open>TableSpec\<close> are read by none of the functions below and are left out.
\<close>

record TableSpec =
  name :: string
  max_mb :: size_t
  max_hr :: size_t
  schema :: string
  source :: DataSource
  loader :: string
  location :: string
  backup :: string
  format :: string
  timeSpec :: TimeSpec

section \<open>Ingest spec (ingest/IngestSpec.h, as the test constructs it)\<close>

datatype SpecState = NEW | PROCESSING | READY | FAILED

text \<open>A member \<open>x_\<close> of a class is the field \<open>m_x\<close> of its record.\<close>

record IngestSpec =
  m_table :: TableSpec
  m_version :: string
  m_path :: string
  m_domain :: string
  m_size :: size_t
  m_state :: SpecState
  m_mdate :: size_t
  m_id :: string

fun decimal :: "nat \<Rightarrow> string" where
  "decimal n = (if n < 10 then [''0123456789'' ! n]
                else decimal (n div 10) @ [''0123456789'' ! (n mod 10)])"

declare decimal.simps [simp del]

text \<open>
  Modelled from the spec: the constructor of \<open>IngestSpec\<close> (IngestSpec.h is missing). The
  identity is the table name, the path and the size, joined by \<open>@\<close>, as the spec says and as the test
  \<open>TestIngestSpec\<close> expects (\<open>"test@nebula/v1.x@10"\<close>).
\<close>

definition mkIngestSpec ::
  "TableSpec \<Rightarrow> string \<Rightarrow> string \<Rightarrow> string \<Rightarrow> size_t \<Rightarrow> SpecState \<Rightarrow> size_t \<Rightarrow> IngestSpec" where
  "mkIngestSpec t ver p dm sz st date =
     \<lparr> m_table = t, m_version = ver, m_path = p, m_domain = dm, m_size = sz, m_state = st,
       m_mdate = date,
       m_id = name t @ ''@'' @ p @ ''@'' @ decimal (unat sz) \<rparr>"

section \<open>Rows, blocks and the block manager\<close>

text \<open>
  \<open>RowData\<close> is an interface; a row is the record of its accessors. Only the accessors the
  ingestion reads itself are kept (the wrapper forwards all the others unchanged).
\<close>

record RowData =
  readString :: "string \<Rightarrow> string"
  readLong :: "string \<Rightarrow> int64_t"
  isNull :: "string \<Rightarrow> bool"

text \<open>
  Modelled from the spec: \<open>BlockSignature\<close> (its declaration is missing) is the tuple
  \<open>(table_name, block_seq, time_min, time_max, spec_id)\<close>, in the order of the braced
  initialisers of the source.
\<close>

record BlockSignature =
  table_name :: string
  block_seq :: size_t
  time_min :: size_t
  time_max :: size_t
  spec_id :: string

text \<open>A batch holds, for every row added, the value of its time column and the row.\<close>

type_synonym Batch = "(int64_t \<times> RowData) list"

record BatchBlock =
  signature :: BlockSignature
  batch :: Batch

text \<open>
  Modelled from the spec: two blocks with identical \<open>(table_name, spec_id)\<close> share a spec.
\<close>

definition sameSpec :: "BlockSignature \<Rightarrow> BlockSignature \<Rightarrow> bool" where
  "sameSpec a b = (table_name a = table_name b \<and> spec_id a = spec_id b)"

text \<open>
  Modelled from the spec: \<open>BlockManager\<close> (BlockManager.h/.cpp are missing) is the registry
  of the installed blocks, here the list of them in the order of their installation.
\<close>

type_synonym BlockManager = "BatchBlock list"

text \<open>
  Modelled from the spec: \<open>BlockManager::removeSameSpec\<close> (missing) removes every installed
  block whose \<open>(table_name, spec_id)\<close> pair equals that of the signature given.
\<close>

definition removeSameSpec :: "BlockSignature \<Rightarrow> BlockManager \<Rightarrow> BlockManager" where
  "removeSameSpec bs bm = filter (\<lambda>b. \<not> sameSpec (signature b) bs) bm"

text \<open>
  Modelled from the spec: \<open>BlockManager::add\<close> (missing) installs a block; a duplicate
  signature is rejected or overwrites, by the implementation's choice, which is the
  parameter \<open>ow\<close> here.
\<close>

definition add_block :: "bool \<Rightarrow> BatchBlock \<Rightarrow> BlockManager \<Rightarrow> BlockManager" where
  "add_block ow b bm =
     (if signature b \<in> set (map signature bm)
      then (if ow then map (\<lambda>x. if signature x = signature b then b else x) bm else bm)
      else bm @ [b])"

text \<open>
  Modelled from the spec: \<open>BlockManager::add\<close> of a vector of blocks (missing) installs
  each block, in order.
\<close>

definition add_blocks :: "bool \<Rightarrow> BatchBlock list \<Rightarrow> BlockManager \<Rightarrow> BlockManager" where
  "add_blocks ow blocks bm = foldl (\<lambda>m b. add_block ow b m) bm blocks"

section \<open>The process: configuration, collaborators and state\<close>

text \<open>
  Modelled from the spec: the schema (type/Serde.h is missing) is the list of the named,
  typed columns of the root record.
\<close>

datatype Kind = BOOLEAN | TINYINT | SMALLINT | INTEGER | BIGINT | REAL | DOUBLE | VARCHAR
  | ARRAY | MAP | STRUCT

type_synonym Schema = "(string \<times> Kind) list"

record Table =
  tname :: string
  tschema :: Schema

datatype FsOp = Copy string string string | Unlink string

text \<open>
  The flags and the collaborators whose code is missing are parameters:
  \<^item> \<open>NTEST_LOADER\<close>, \<open>NBLOCK_MAX_ROWS\<close>: the two gflags;
  \<^item> \<open>hardware_concurrency\<close>: \<open>std::thread::hardware_concurrency()\<close>;
  \<^item> \<open>unix_timestamp k\<close>: what the \<open>k\<close>-th call of \<open>Evidence::unix_timestamp()\<close> returns;
  \<^item> \<open>Evidence_time\<close>: \<open>Evidence::time(value, pattern)\<close>;
  \<^item> \<open>TestTable_name\<close>: \<open>TestTable().name()\<close>; \<open>mock sig\<close>: the synthetic rows that the
    block manager loads for a test signature;
  \<^item> \<open>TypeSerializer_from\<close>: \<open>TypeSerializer::from\<close>;
  \<^item> \<open>s3_object domain key\<close>: the rows a reader yields from the object \<open>key\<close> of bucket
    \<open>domain\<close>; \<open>mkstemp k\<close>: the name of the \<open>k\<close>-th temporary file;
  \<^item> \<open>overwrite\<close>: what the block manager does with a duplicate signature.
\<close>

record Env =
  NTEST_LOADER :: string
  NBLOCK_MAX_ROWS :: size_t
  hardware_concurrency :: unsigned
  unix_timestamp :: "nat \<Rightarrow> int64_t"
  Evidence_time :: "string \<Rightarrow> string \<Rightarrow> int64_t"
  TestTable_name :: string
  mock :: "BlockSignature \<Rightarrow> Batch"
  TypeSerializer_from :: "string \<Rightarrow> Schema"
  s3_object :: "string \<Rightarrow> string \<Rightarrow> RowData list"
  mkstemp :: "nat \<Rightarrow> string"
  overwrite :: bool

text \<open>
  The state of the process: the block manager, the table service, the local files (a
  file is the rows a reader yields from it), the log of the file-system calls, the number
  of temporary files made and the number of clock readings taken.
\<close>

record World =
  bm :: BlockManager
  tables :: "Table list"
  files :: "string \<rightharpoonup> RowData list"
  fsops :: "FsOp list"
  temps :: nat
  ticks :: nat

text \<open>Modelled from the spec: enrollment is idempotent, the first writer of a name wins.\<close>

definition enroll :: "Table \<Rightarrow> World \<Rightarrow> World" where
  "enroll t w = (if tname t \<in> set (map tname (tables w)) then w
                 else w\<lparr>tables := tables w @ [t]\<rparr>)"

text \<open>
  Modelled from the spec: \<open>copy(remote_key)\<close> of the file system made by
  \<open>makeFS("s3", domain)\<close> (storage/NFS.h is missing) downloads the object into a newly
  created temporary file and returns its local path.
\<close>

definition copy :: "Env \<Rightarrow> string \<Rightarrow> string \<Rightarrow> World \<Rightarrow> string \<times> World" where
  "copy env dm key w =
     (let tmp = mkstemp env (temps w)
      in (tmp, w\<lparr>files := (files w)(tmp \<mapsto> s3_object env dm key),
                 fsops := fsops w @ [Copy dm key tmp],
                 temps := Suc (temps w)\<rparr>))"

text \<open>\<open>unlink\<close> removes the file; the caller ignores its result.\<close>

definition unlink :: "string \<Rightarrow> World \<Rightarrow> World" where
  "unlink f w = w\<lparr>files := (files w)(f := None), fsops := fsops w @ [Unlink f]\<rparr>"

section \<open>The test loader (IngestSpec.cpp, loadNebulaTestData)\<close>

text \<open>Modelled from the spec: \<open>Evidence::HOUR_SECONDS\<close> (common/Evidence.h is missing) is 3600.\<close>

definition HOUR_SECONDS :: size_t where
  "HOUR_SECONDS = 3600"

text \<open>
  The \<open>for\<close> loop over \<open>unsigned i\<close>: the body increments \<open>i\<close> (the \<open>i++\<close> of the
  signature) and the loop header increments it again. The counter wraps around at
  \<open>2^32\<close>, so the loop need not end: not returning is \<open>None\<close>.
\<close>

partial_function (option) testDataLoop ::
  "Env \<Rightarrow> string \<Rightarrow> size_t \<Rightarrow> size_t \<Rightarrow> unsigned \<Rightarrow> unsigned \<Rightarrow> BlockManager
     \<Rightarrow> BlockManager option" where
  "testDataLoop env spec start window numBlocks i m =
     (if i < numBlocks
      then (let begin = start + ucast i * window;
                sig = \<lparr> table_name = TestTable_name env, block_seq = ucast i,
                        time_min = begin, time_max = begin + window, spec_id = spec \<rparr>;
                i1 = i + 1;
                m1 = add_block (overwrite env) \<lparr> signature = sig, batch = mock env sig \<rparr> m
            in testDataLoop env spec start window numBlocks (i1 + 1) m1)
      else Some m)"

text \<open>The division by \<open>numBlocks = 0\<close> is undefined behaviour: \<open>None\<close>.\<close>

definition loadNebulaTestData :: "Env \<Rightarrow> TableSpec \<Rightarrow> string \<Rightarrow> World \<Rightarrow> World option" where
  "loadNebulaTestData env t spec w =
     (let start = unixTimeValue (timeSpec t);
          end = start + HOUR_SECONDS * max_hr t;
          numBlocks = hardware_concurrency env
      in if numBlocks = 0 then None
         else map_option (\<lambda>m. w\<lparr>bm := m\<rparr>)
                (testDataLoop env spec start ((end - start) div ucast numBlocks) numBlocks 0 (bm w)))"

section \<open>The row wrapper (IngestSpec.cpp, RowWrapperWithTime)\<close>

text \<open>Modelled from the spec: the reserved column name \<open>Table::TIME_COLUMN\<close> (meta/Table.h is missing).\<close>

definition TIME_COLUMN :: string where
  "TIME_COLUMN = ''_time_''"

text \<open>
  The time function \<open>std::function<int64_t(const RowData*)>\<close>. Reading the process clock is
  its only effect, so it takes the number of clock readings taken so far and returns the
  new number with the value.
\<close>

type_synonym TimeFunc = "RowData \<Rightarrow> nat \<Rightarrow> int64_t \<times> nat"

record RowWrapperWithTime =
  m_timeFunc :: TimeFunc
  m_row :: RowData

definition RowWrapperWithTime_isNull :: "RowWrapperWithTime \<Rightarrow> string \<Rightarrow> bool" where
  "RowWrapperWithTime_isNull rw field =
     (if field = TIME_COLUMN then False else isNull (m_row rw) field)"

definition RowWrapperWithTime_readLong ::
  "RowWrapperWithTime \<Rightarrow> string \<Rightarrow> nat \<Rightarrow> int64_t \<times> nat" where
  "RowWrapperWithTime_readLong rw field k =
     (if field = TIME_COLUMN then m_timeFunc rw (m_row rw) k
      else (readLong (m_row rw) field, k))"

definition RowWrapperWithTime_readString :: "RowWrapperWithTime \<Rightarrow> string \<Rightarrow> string" where
  "RowWrapperWithTime_readString rw field = readString (m_row rw) field"

section \<open>Ingestion of a file (IngestSpec.cpp, IngestSpec::ingest)\<close>

text \<open>
  The \<open>switch\<close> on the time type: the schema with the time column, and the time function.
  \<open>None\<close> is the \<open>default\<close> branch.
\<close>

definition timeSwitch :: "Env \<Rightarrow> IngestSpec \<Rightarrow> Schema \<Rightarrow> (Schema \<times> TimeFunc) option" where
  "timeSwitch env s sch =
     (let ts = timeSpec (m_table s)
      in case type ts of
           STATIC \<Rightarrow> Some (sch @ [(TIME_COLUMN, BIGINT)], \<lambda>r k. (unixTimeValue ts, k))
         | CURRENT \<Rightarrow> Some (sch @ [(TIME_COLUMN, BIGINT)], \<lambda>r k. (unix_timestamp env k, Suc k))
         | COLUMN \<Rightarrow>
             Some (filter (\<lambda>c. fst c \<noteq> colName ts) sch @ [(TIME_COLUMN, BIGINT)],
                   \<lambda>r k. (Evidence_time env (readString r (colName ts)) (pattern ts), k))
         | MACRO \<Rightarrow>
             Some (sch @ [(TIME_COLUMN, BIGINT)],
                   if pattern ts = ''date'' then (\<lambda>r k. (m_mdate s, k)) else (\<lambda>r k. (0, k)))
         | PROVIDED \<Rightarrow> None)"

text \<open>The state of the batch loop: the local variables that the loop changes.\<close>

record Loop =
  cur :: Batch
  range :: "size_t \<times> size_t"
  blocks :: "BatchBlock list"
  blockId :: size_t
  clock :: nat

definition range0 :: "size_t \<times> size_t" where
  "range0 = (- 1, 0)"

definition makeBlock :: "string \<Rightarrow> string \<Rightarrow> size_t \<times> size_t \<Rightarrow> size_t \<Rightarrow> Batch \<Rightarrow> BatchBlock" where
  "makeBlock tn spec rg bid b =
     \<lparr> signature = \<lparr> table_name = tn, block_seq = bid, time_min = fst rg, time_max = snd rg,
                     spec_id = spec \<rparr>,
       batch = b \<rparr>"

text \<open>
  Modelled from the spec: \<open>Batch::add\<close> (memory/Batch.h is missing) serialises the row
  against the schema, reading every column through the row interface; the time column is
  never null in the wrapper, so its value is read with \<open>readLong\<close>.
\<close>

definition Batch_add :: "RowWrapperWithTime \<Rightarrow> Batch \<Rightarrow> nat \<Rightarrow> Batch \<times> nat" where
  "Batch_add rw b k =
     (let (t, k') = RowWrapperWithTime_readLong rw TIME_COLUMN k
      in (b @ [(t, m_row rw)], k'))"

text \<open>One iteration of \<open>while (source->hasNext())\<close>.\<close>

definition step :: "size_t \<Rightarrow> string \<Rightarrow> string \<Rightarrow> TimeFunc \<Rightarrow> RowData \<Rightarrow> Loop \<Rightarrow> Loop" where
  "step bRows tn spec tf row st =
     (let rw = \<lparr> m_timeFunc = tf, m_row = row \<rparr>;
          st1 = (if unat bRows \<le> length (cur st)
                 then st\<lparr> blocks := blocks st @ [makeBlock tn spec (range st) (blockId st) (cur st)],
                          blockId := blockId st + 1,
                          cur := [],
                          range := range0 \<rparr>
                 else st);
          (time, k1) = RowWrapperWithTime_readLong rw TIME_COLUMN (clock st1);
          lo = (if time < fst (range st1) then time else fst (range st1));
          hi = (if snd (range st1) < time then time else snd (range st1));
          (b, k2) = Batch_add rw (cur st1) k1
      in st1\<lparr> range := (lo, hi), cur := b, clock := k2 \<rparr>)"

fun batchLoop :: "size_t \<Rightarrow> string \<Rightarrow> string \<Rightarrow> TimeFunc \<Rightarrow> RowData list \<Rightarrow> Loop \<Rightarrow> Loop" where
  "batchLoop bRows tn spec tf [] st = st"
| "batchLoop bRows tn spec tf (row # rows) st =
     batchLoop bRows tn spec tf rows (step bRows tn spec tf row st)"

definition finish :: "string \<Rightarrow> string \<Rightarrow> Loop \<Rightarrow> BatchBlock list" where
  "finish tn spec st =
     (if 0 < length (cur st)
      then blocks st @ [makeBlock tn spec (range st) (blockId st) (cur st)]
      else blocks st)"

definition ingest :: "Env \<Rightarrow> IngestSpec \<Rightarrow> string \<Rightarrow> World \<Rightarrow> BatchBlock list \<times> World" where
  "ingest env s file w =
     (let t = m_table s;
          sch = TypeSerializer_from env (schema t)
      in case timeSwitch env s sch of
           None \<Rightarrow> ([], w)
         | Some (sch', tf) \<Rightarrow>
             (let w1 = enroll \<lparr> tname = name t, tschema = sch' \<rparr> w
              in if format t = ''csv'' \<or> format t = ''parquet''
                 then (let rows = (case files w1 file of Some rs \<Rightarrow> rs | None \<Rightarrow> []);
                           st = batchLoop (NBLOCK_MAX_ROWS env) (name t) (m_id s) tf rows
                                  \<lparr> cur = [], range = range0, blocks = [], blockId = 0,
                                    clock = ticks w1 \<rparr>
                       in (finish (name t) (m_id s) st, w1\<lparr>ticks := clock st\<rparr>))
                 else ([], w1)))"

section \<open>Execution of a spec (IngestSpec.cpp, load, loadSwap, loadRoll, work)\<close>

definition LOADER_SWAP :: string where
  "LOADER_SWAP = ''Swap''"

definition LOADER_ROLL :: string where
  "LOADER_ROLL = ''Roll''"

definition load :: "Env \<Rightarrow> IngestSpec \<Rightarrow> World \<Rightarrow> BatchBlock list \<times> World" where
  "load env s w =
     (let (tmpFile, w1) = copy env (m_domain s) (m_id s) w;
          (bs, w2) = ingest env s tmpFile w1
      in (bs, unlink tmpFile w2))"

definition loadSwap :: "Env \<Rightarrow> IngestSpec \<Rightarrow> World \<Rightarrow> bool \<times> World" where
  "loadSwap env s w =
     (if source (m_table s) = S3
      then (let (bs, w1) = load env s w;
                m1 = foldl (\<lambda>m b. removeSameSpec (signature b) m) (bm w1) bs
            in (True, w1\<lparr>bm := add_blocks (overwrite env) bs m1\<rparr>))
      else (False, w))"

definition loadRoll :: "Env \<Rightarrow> IngestSpec \<Rightarrow> World \<Rightarrow> bool \<times> World" where
  "loadRoll env s w =
     (if source (m_table s) = S3
      then (let (bs, w1) = load env s w
            in (True, w1\<lparr>bm := add_blocks (overwrite env) bs (bm w1)\<rparr>))
      else (False, w))"

text \<open>\<open>None\<close>: the call does not return (only the test loader can do that).\<close>

definition work :: "Env \<Rightarrow> IngestSpec \<Rightarrow> World \<Rightarrow> (bool \<times> World) option" where
  "work env s w =
     (let ld = loader (m_table s)
      in if ld = NTEST_LOADER env
         then map_option (\<lambda>w'. (True, w')) (loadNebulaTestData env (m_table s) (m_id s) w)
         else if ld = LOADER_SWAP then Some (loadSwap env s w)
         else if ld = LOADER_ROLL then Some (loadRoll env s w)
         else Some (False, w))"

section \<open>The flat row buffer (memory/keyed/FlatBuffer.h, as its test uses it)\<close>

text \<open>
  Modelled from the spec: \<open>FlatBuffer\<close> (FlatBuffer.h/.cpp are missing; only
  TestFlatBuffer.cpp is there) is a schema plus an append-only row store: here the bytes
  stored, and the offset in them at which every row starts. The layout of a row is not
  specified, so the serialiser is a parameter of \<open>add\<close>.
\<close>

datatype FlatBufferError = RollbackOnEmpty

record FlatBuffer =
  fb_schema :: Schema
  fb_bytes :: "8 word list"
  fb_offsets :: "nat list"

text \<open>Modelled from the spec: the constructor (missing) makes an empty buffer of a schema.\<close>

definition FlatBuffer_init :: "Schema \<Rightarrow> FlatBuffer" where
  "FlatBuffer_init sch = \<lparr> fb_schema = sch, fb_bytes = [], fb_offsets = [] \<rparr>"

text \<open>
  Modelled from the spec: \<open>add(row)\<close> (missing) serialises the row against the schema,
  growing the store; the row count is incremented by one.
\<close>

definition FlatBuffer_add :: "(Schema \<Rightarrow> 'r \<Rightarrow> 8 word list) \<Rightarrow> 'r \<Rightarrow> FlatBuffer \<Rightarrow> FlatBuffer" where
  "FlatBuffer_add ser r fb =
     fb\<lparr> fb_offsets := fb_offsets fb @ [length (fb_bytes fb)],
         fb_bytes := fb_bytes fb @ ser (fb_schema fb) r \<rparr>"

text \<open>
  Modelled from the spec: \<open>rollback()\<close> (missing) reverses the most recent \<open>add()\<close>: it
  restores the row count and the byte cursor recorded before it and truncates the bytes
  appended. On an empty buffer it is an error.
\<close>

definition FlatBuffer_rollback :: "FlatBuffer \<Rightarrow> FlatBufferError + FlatBuffer" where
  "FlatBuffer_rollback fb =
     (if fb_offsets fb = [] then Inl RollbackOnEmpty
      else Inr (fb\<lparr> fb_bytes := take (last (fb_offsets fb)) (fb_bytes fb),
                    fb_offsets := butlast (fb_offsets fb) \<rparr>))"

text \<open>Modelled from the spec: \<open>get_rows()\<close> (missing) is the current row count.\<close>

definition FlatBuffer_getRows :: "FlatBuffer \<Rightarrow> nat" where
  "FlatBuffer_getRows fb = length (fb_offsets fb)"

text \<open>
  Modelled from the spec: \<open>row(i)\<close> (missing) is a read view of row \<open>i\<close>, for
  \<open>0 \<le> i < get_rows()\<close>: here the bytes that the row serialised to.
\<close>

definition FlatBuffer_row :: "FlatBuffer \<Rightarrow> nat \<Rightarrow> 8 word list option" where
  "FlatBuffer_row fb i =
     (if i < length (fb_offsets fb)
      then (let b = fb_offsets fb ! i;
                e = (if Suc i < length (fb_offsets fb) then fb_offsets fb ! Suc i
                     else length (fb_bytes fb))
            in Some (take (e - b) (drop b (fb_bytes fb))))
      else None)"

text \<open>A sequence of adds, as the loops of the tests make them.\<close>

definition FlatBuffer_adds :: "(Schema \<Rightarrow> 'r \<Rightarrow> 8 word list) \<Rightarrow> 'r list \<Rightarrow> FlatBuffer \<Rightarrow> FlatBuffer" where
  "FlatBuffer_adds ser rs fb = foldl (\<lambda>b r. FlatBuffer_add ser r b) fb rs"

section \<open>Concrete inputs\<close>

text \<open>
  The default flags on a machine with four hardware threads, with a clock that advances
  by one at every reading and empty S3 objects, and the table and the spec of the test
  \<open>TestIngestSpec\<close>.
\<close>

definition flags :: Env where
  "flags = \<lparr> NTEST_LOADER = ''NebulaTest'', NBLOCK_MAX_ROWS = 50000, hardware_concurrency = 4,
     unix_timestamp = (\<lambda>k. 100 + of_nat k), Evidence_time = (\<lambda>v p. 0),
     TestTable_name = ''nebula.test'', mock = (\<lambda>sig. []), TypeSerializer_from = (\<lambda>s. []),
     s3_object = (\<lambda>d k. []), mkstemp = (\<lambda>k. ''/tmp/nebula.'' @ decimal k),
     overwrite = False \<rparr>"

definition test_table :: TableSpec where
  "test_table = \<lparr> name = ''test'', max_mb = 1000, max_hr = 10, schema = ''s3'', source = S3,
     loader = ''swap'', location = ''s3://test'', backup = ''s3://bak'', format = ''csv'',
     timeSpec = \<lparr> type = STATIC, unixTimeValue = 0, colName = [], pattern = [] \<rparr> \<rparr>"

definition test_spec :: IngestSpec where
  "test_spec = mkIngestSpec test_table ''1.0'' ''nebula/v1.x'' ''nebula'' 10 NEW 0"

definition world0 :: World where
  "world0 = \<lparr> bm = [], tables = [], files = Map.empty, fsops = [], temps = 0, ticks = 0 \<rparr>"

definition a_row :: RowData where
  "a_row = \<lparr> readString = (\<lambda>f. ''x''), readLong = (\<lambda>f. 7), isNull = (\<lambda>f. False) \<rparr>"



definition s3_roll_spec :: IngestSpec where
  "s3_roll_spec = test_spec\<lparr>m_table := test_table\<lparr>loader := ''Roll''\<rparr>\<rparr>"

definition s3_swap_spec :: IngestSpec where
  "s3_swap_spec = test_spec\<lparr>m_table := test_table\<lparr>loader := ''Swap''\<rparr>\<rparr>"

definition orc_swap_spec :: IngestSpec where
  "orc_swap_spec = test_spec\<lparr>m_table := test_table\<lparr>loader := ''Swap'', format := ''orc''\<rparr>\<rparr>"

definition provided_roll_spec :: IngestSpec where
  "provided_roll_spec = test_spec\<lparr>m_table := test_table\<lparr>loader := ''Roll'',
      timeSpec := \<lparr> type = PROVIDED, unixTimeValue = 0, colName = [], pattern = [] \<rparr>\<rparr>\<rparr>"

definition current_roll_spec :: IngestSpec where
  "current_roll_spec = test_spec\<lparr>m_table := test_table\<lparr>loader := ''Roll'',
      timeSpec := \<lparr> type = CURRENT, unixTimeValue = 0, colName = [], pattern = [] \<rparr>\<rparr>\<rparr>"

definition column_roll_spec :: IngestSpec where
  "column_roll_spec = test_spec\<lparr>m_table := test_table\<lparr>loader := ''Roll'',
      timeSpec := \<lparr> type = COLUMN, unixTimeValue = 0, colName = ''ts'', pattern = ''%s'' \<rparr>\<rparr>\<rparr>"

text \<open>Scenario S4 of the spec: the test loader, start 0, 24 hours, four hardware threads.\<close>

definition s4_spec :: IngestSpec where
  "s4_spec = test_spec\<lparr>m_table := test_table\<lparr>loader := ''NebulaTest'', max_hr := 24\<rparr>\<rparr>"

text \<open>A block manager that already holds one block of the test's table and spec.\<close>

definition old_block :: BatchBlock where
  "old_block = makeBlock ''test'' ''test@nebula/v1.x@10'' (0, 0) 0 [(0, a_row)]"

definition world_old :: World where
  "world_old = world0\<lparr>bm := [old_block]\<rparr>"

text \<open>Flags with another block capacity, S3 objects of one and of three rows.\<close>

definition env_zero :: Env where
  "env_zero = flags\<lparr>NBLOCK_MAX_ROWS := 0, s3_object := (\<lambda>d k. [a_row])\<rparr>"

definition env_two :: Env where
  "env_two = flags\<lparr>NBLOCK_MAX_ROWS := 2, s3_object := (\<lambda>d k. [a_row, a_row, a_row])\<rparr>"

definition env_one :: Env where
  "env_one = flags\<lparr>s3_object := (\<lambda>d k. [a_row])\<rparr>"

text \<open>Two rows with a time column, and a time parser that returns the length of the text.\<close>

definition short_row :: RowData where
  "short_row = \<lparr> readString = (\<lambda>f. ''ab''), readLong = (\<lambda>f. 0), isNull = (\<lambda>f. False) \<rparr>"

definition long_row :: RowData where
  "long_row = \<lparr> readString = (\<lambda>f. ''abcde''), readLong = (\<lambda>f. 0), isNull = (\<lambda>f. False) \<rparr>"

definition env_col :: Env where
  "env_col = flags\<lparr>Evidence_time := (\<lambda>v p. of_nat (length v)),
                    s3_object := (\<lambda>d k. [long_row, short_row])\<rparr>"

text \<open>A time parser that returns a negative time for the short text.\<close>

definition env_neg :: Env where
  "env_neg = flags\<lparr>Evidence_time := (\<lambda>v p. if length v = 2 then - 5 else 3),
                    s3_object := (\<lambda>d k. [short_row, long_row])\<rparr>"

definition column_block :: BatchBlock where
  "column_block = makeBlock ''test'' ''test@nebula/v1.x@10'' (2, 5) 0 [(5, long_row), (2, short_row)]"

section \<open>Invariants of the batch loop\<close>

text \<open>The loop state at the entry of the loop, with \<open>k\<close> clock readings taken before.\<close>

definition loop0 :: "nat \<Rightarrow> Loop" where
  "loop0 k = \<lparr> cur = [], range = range0, blocks = [], blockId = 0, clock = k \<rparr>"

text \<open>The two updates of the running range by a time value.\<close>

definition widen :: "size_t \<times> size_t \<Rightarrow> size_t \<Rightarrow> size_t \<times> size_t" where
  "widen rg t = (if t < fst rg then t else fst rg, if snd rg < t then t else snd rg)"

text \<open>The current batch is not over capacity, and every emitted block is full.\<close>

definition rows_inv :: "nat \<Rightarrow> Loop \<Rightarrow> bool" where
  "rows_inv B st \<longleftrightarrow> length (cur st) \<le> B \<and> (\<forall>b\<in>set (blocks st). length (batch b) = B)"

text \<open>A time function that does not read the clock: its value depends on the row alone.\<close>

definition clockFree :: "TimeFunc \<Rightarrow> bool" where
  "clockFree tf \<longleftrightarrow> (\<forall>r k. tf r k = (fst (tf r 0), k))"

text \<open>
  A range covers a batch: it bounds every stored time, and its two ends are stored times
  of the batch (for an empty batch, it is the initial range).
\<close>

definition covers :: "size_t \<times> size_t \<Rightarrow> Batch \<Rightarrow> bool" where
  "covers rg b \<longleftrightarrow> (\<forall>x\<in>set b. fst rg \<le> fst x \<and> fst x \<le> snd rg)
                    \<and> (if b = [] then rg = range0 else fst rg \<in> fst ` set b \<and> snd rg \<in> fst ` set b)"

definition range_inv :: "Loop \<Rightarrow> bool" where
  "range_inv st \<longleftrightarrow> covers (range st) (cur st)
     \<and> (\<forall>b\<in>set (blocks st). covers (time_min (signature b), time_max (signature b)) (batch b))"

text \<open>Every block carries the table name and the spec id.\<close>

definition sig_inv :: "string \<Rightarrow> string \<Rightarrow> BatchBlock list \<Rightarrow> bool" where
  "sig_inv tn spec bs \<longleftrightarrow> (\<forall>b\<in>set bs. table_name (signature b) = tn \<and> spec_id (signature b) = spec)"

section \<open>What a run of the pipeline does to the state\<close>

lemmas ex_defs = flags_def test_table_def test_spec_def world0_def mkIngestSpec_def

lemma ingest_fsops: "fsops (snd (ingest env s f w)) = fsops w"
  by (simp add: ingest_def enroll_def Let_def split: option.splits prod.splits)

lemma ingest_bm: "bm (snd (ingest env s f w)) = bm w"
  by (simp add: ingest_def enroll_def Let_def split: option.splits prod.splits)

lemma load_unfold:
  "load env s w =
     (fst (ingest env s (mkstemp env (temps w)) (snd (copy env (m_domain s) (m_id s) w))),
      unlink (mkstemp env (temps w))
        (snd (ingest env s (mkstemp env (temps w)) (snd (copy env (m_domain s) (m_id s) w)))))"
  by (simp add: load_def copy_def Let_def split: prod.splits)

lemmas run_defs = load_unfold copy_def ingest_def timeSwitch_def enroll_def step_def Batch_add_def
  RowWrapperWithTime_readLong_def TIME_COLUMN_def finish_def makeBlock_def range0_def Let_def

text \<open>
  \<open>load\<close> calls the file system twice: it copies the object named by the spec's id from
  the bucket named by the spec's domain, and it unlinks the temporary file, whatever the
  ingestion returned.
\<close>

lemma load_fsops:
  "fsops (snd (load env s w)) =
     fsops w @ [Copy (m_domain s) (m_id s) (mkstemp env (temps w)), Unlink (mkstemp env (temps w))]"
  by (simp add: load_unfold unlink_def ingest_fsops) (simp add: copy_def Let_def)

lemma load_bm: "bm (snd (load env s w)) = bm w"
  by (simp add: load_unfold unlink_def ingest_bm) (simp add: copy_def Let_def)

lemma loadSwap_unfold:
  "loadSwap env s w =
     (if source (m_table s) = S3
      then (True, (snd (load env s w))\<lparr>bm := add_blocks (overwrite env) (fst (load env s w))
               (foldl (\<lambda>m b. removeSameSpec (signature b) m) (bm w) (fst (load env s w)))\<rparr>)
      else (False, w))"
  using load_bm [of env s w] by (auto simp: loadSwap_def split: prod.splits)

lemma loadRoll_unfold:
  "loadRoll env s w =
     (if source (m_table s) = S3
      then (True, (snd (load env s w))\<lparr>bm := add_blocks (overwrite env) (fst (load env s w)) (bm w)\<rparr>)
      else (False, w))"
  using load_bm [of env s w] by (auto simp: loadRoll_def split: prod.splits)

text \<open>The blocks of a run: none, or those of the batch loop over the rows of the object.\<close>

lemma ingest_cases:
  "fst (ingest env s f w) = []
   \<or> (\<exists>sch' tf. timeSwitch env s (TypeSerializer_from env (schema (m_table s))) = Some (sch', tf)
        \<and> fst (ingest env s f w) =
            finish (name (m_table s)) (m_id s)
              (batchLoop (NBLOCK_MAX_ROWS env) (name (m_table s)) (m_id s) tf
                 (case files w f of Some rs \<Rightarrow> rs | None \<Rightarrow> []) (loop0 (ticks w))))"
  by (auto simp: ingest_def enroll_def loop0_def Let_def split: option.splits prod.splits)

lemma load_cases:
  "fst (load env s w) = []
   \<or> (\<exists>sch' tf. timeSwitch env s (TypeSerializer_from env (schema (m_table s))) = Some (sch', tf)
        \<and> fst (load env s w) =
            finish (name (m_table s)) (m_id s)
              (batchLoop (NBLOCK_MAX_ROWS env) (name (m_table s)) (m_id s) tf
                 (s3_object env (m_domain s) (m_id s)) (loop0 (ticks w))))"
  using ingest_cases [of env s "mkstemp env (temps w)" "snd (copy env (m_domain s) (m_id s) w)"]
  by (simp add: load_unfold) (simp add: copy_def Let_def)

lemma ingest_unsupported:
  assumes "(format (m_table s) \<noteq> ''csv'' \<and> format (m_table s) \<noteq> ''parquet'')
           \<or> type (timeSpec (m_table s)) \<notin> {STATIC, CURRENT, COLUMN, MACRO}"
  shows "fst (ingest env s f w) = []"
  using assms
  by (cases "type (timeSpec (m_table s))")
     (auto simp: ingest_def timeSwitch_def Let_def split: option.splits prod.splits)

lemma load_unsupported:
  assumes "(format (m_table s) \<noteq> ''csv'' \<and> format (m_table s) \<noteq> ''parquet'')
           \<or> type (timeSpec (m_table s)) \<notin> {STATIC, CURRENT, COLUMN, MACRO}"
  shows "fst (load env s w) = []"
  using ingest_unsupported [OF assms] by (simp add: load_unfold)

section \<open>One iteration of the batch loop\<close>

lemma step_cur:
  "cur (step bRows tn spec tf row st) =
     (if unat bRows \<le> length (cur st) then [] else cur st)
       @ [(fst (tf row (snd (tf row (clock st)))), row)]"
  by (simp add: step_def Batch_add_def RowWrapperWithTime_readLong_def Let_def split: prod.splits)

lemma step_blocks:
  "blocks (step bRows tn spec tf row st) =
     (if unat bRows \<le> length (cur st)
      then blocks st @ [makeBlock tn spec (range st) (blockId st) (cur st)] else blocks st)"
  by (simp add: step_def Batch_add_def RowWrapperWithTime_readLong_def Let_def split: prod.splits)

lemma step_range:
  "range (step bRows tn spec tf row st) =
     widen (if unat bRows \<le> length (cur st) then range0 else range st) (fst (tf row (clock st)))"
  by (simp add: step_def Batch_add_def RowWrapperWithTime_readLong_def widen_def Let_def
        split: prod.splits)

section \<open>Loader dispatch\<close>

text \<open>
  C10. The dispatch of \<open>work()\<close> compares the loader string exactly: for a loader that is
  not the configured test loader name, not \<open>"Swap"\<close> and not \<open>"Roll"\<close>, \<open>work()\<close> returns
  false and the whole process state, the block manager included, is as it was.
\<close>

theorem work_unknown_loader:
  assumes "loader (m_table s) \<noteq> NTEST_LOADER env"
    and "loader (m_table s) \<noteq> ''Swap''"
    and "loader (m_table s) \<noteq> ''Roll''"
  shows "work env s w = Some (False, w)"
  using assms by (simp add: work_def LOADER_SWAP_def LOADER_ROLL_def)

text \<open>The lowercase \<open>"swap"\<close> of the table of \<open>TestIngestSpec\<close> is such a loader.\<close>

theorem work_unknown_loader_witness:
  "loader (m_table test_spec) \<noteq> NTEST_LOADER flags \<and> loader (m_table test_spec) \<noteq> ''Swap''
   \<and> loader (m_table test_spec) \<noteq> ''Roll'' \<and> loader (m_table test_spec) = ''swap''
   \<and> work flags test_spec world0 = Some (False, world0)"
proof -
  have a: "loader (m_table test_spec) \<noteq> NTEST_LOADER flags" by (simp add: ex_defs)
  have b: "loader (m_table test_spec) \<noteq> ''Swap''" by (simp add: ex_defs)
  have c: "loader (m_table test_spec) \<noteq> ''Roll''" by (simp add: ex_defs)
  have d: "loader (m_table test_spec) = ''swap''" by (simp add: ex_defs)
  from a b c d work_unknown_loader [OF a b c, of world0] show ?thesis by simp
qed

section \<open>The file loaders and the data source\<close>




section \<open>Unsupported format or time type\<close>

text \<open>
  What the file loaders do over S3 when the format is neither \<open>"csv"\<close> nor \<open>"parquet"\<close>
  or the time type is none of STATIC, CURRENT, COLUMN, MACRO: the ingestion returns no
  block, the block manager is as it was, and the result is true.
\<close>

lemma unsupported_run_result:
  assumes "loader (m_table s) = ''Swap'' \<or> loader (m_table s) = ''Roll''"
    and "loader (m_table s) \<noteq> NTEST_LOADER env"
    and "source (m_table s) = S3"
    and "(format (m_table s) \<noteq> ''csv'' \<and> format (m_table s) \<noteq> ''parquet'')
         \<or> type (timeSpec (m_table s)) \<notin> {STATIC, CURRENT, COLUMN, MACRO}"
  shows "\<exists>w'. work env s w = Some (True, w') \<and> bm w' = bm w"
  using assms(1-3) load_unsupported [OF assms(4), of env w]
  by (auto simp: work_def LOADER_SWAP_def LOADER_ROLL_def loadSwap_unfold loadRoll_unfold
        add_blocks_def)

text \<open>
  C1. The claim has \<open>work()\<close> return false for an unsupported format or time type, with
  no block installed. With an S3 object of one row and one block installed before: a
  Swap spec of the format \<open>"orc"\<close> and a Roll spec of the time type PROVIDED both leave
  the block manager as it was, but \<open>work()\<close> returns true for both. The ingestion logs
  the error and returns an empty vector, and \<open>loadSwap\<close> and \<open>loadRoll\<close> return true
  without looking at it.
\<close>

theorem unsupported_format_or_time_returns_true:
  "loader (m_table orc_swap_spec) = ''Swap'' \<and> source (m_table orc_swap_spec) = S3
   \<and> format (m_table orc_swap_spec) = ''orc''
   \<and> map_option (\<lambda>(ok, w'). (ok, bm w')) (work env_one orc_swap_spec world_old)
       = Some (True, [old_block])
   \<and> loader (m_table provided_roll_spec) = ''Roll'' \<and> source (m_table provided_roll_spec) = S3
   \<and> format (m_table provided_roll_spec) = ''csv''
   \<and> type (timeSpec (m_table provided_roll_spec)) = PROVIDED
   \<and> map_option (\<lambda>(ok, w'). (ok, bm w')) (work env_one provided_roll_spec world_old)
       = Some (True, [old_block])"
proof -
  have f: "NTEST_LOADER env_one = ''NebulaTest''" by (simp add: env_one_def flags_def)
  have o: "loader (m_table orc_swap_spec) = ''Swap''" "source (m_table orc_swap_spec) = S3"
    "format (m_table orc_swap_spec) = ''orc''"
    by (simp_all add: orc_swap_spec_def ex_defs)
  have p: "loader (m_table provided_roll_spec) = ''Roll''" "source (m_table provided_roll_spec) = S3"
    "format (m_table provided_roll_spec) = ''csv''"
    "type (timeSpec (m_table provided_roll_spec)) = PROVIDED"
    by (simp_all add: provided_roll_spec_def ex_defs)
  have lo: "fst (load env_one orc_swap_spec world_old) = []"
    by (rule load_unsupported) (simp add: o)
  have lp: "fst (load env_one provided_roll_spec world_old) = []"
    by (rule load_unsupported) (simp add: p)
  have w: "bm world_old = [old_block]" by (simp add: world_old_def)
  have 1: "map_option (\<lambda>(ok, w'). (ok, bm w')) (work env_one orc_swap_spec world_old)
       = Some (True, [old_block])"
    by (simp add: work_def LOADER_SWAP_def loadSwap_unfold lo add_blocks_def Let_def o f w)
  have 2: "map_option (\<lambda>(ok, w'). (ok, bm w')) (work env_one provided_roll_spec world_old)
       = Some (True, [old_block])"
    by (simp add: work_def LOADER_SWAP_def LOADER_ROLL_def loadRoll_unfold lp add_blocks_def
          Let_def p f w)
  from o p 1 2 show ?thesis by simp
qed

section \<open>The test loader\<close>

text \<open>
  C2. In scenario S4 (start 0, 24 hours, four hardware threads) the claim expects four
  blocks, numbered 0 to 3, over four contiguous windows of 21600 seconds. The loop
  increments its counter twice per iteration, so \<open>work()\<close> returns true with two blocks
  only, numbered 0 and 2, over \<open>[0, 21600)\<close> and \<open>[43200, 64800)\<close>.
\<close>

theorem test_loader_skips_every_other_block:
  "loader (m_table s4_spec) = NTEST_LOADER flags \<and> hardware_concurrency flags = 4
   \<and> unixTimeValue (timeSpec (m_table s4_spec)) = 0 \<and> max_hr (m_table s4_spec) = 24
   \<and> map_option (\<lambda>(ok, w'). (ok, map (\<lambda>b. (block_seq (signature b), time_min (signature b),
                                             time_max (signature b))) (bm w')))
       (work flags s4_spec world0)
     = Some (True, [(0, 0, 21600), (2, 43200, 64800)])"
proof -
  have f: "NTEST_LOADER flags = ''NebulaTest''" "hardware_concurrency flags = 4"
    "overwrite flags = False" "TestTable_name flags = ''nebula.test''" "mock flags = (\<lambda>sig. [])"
    by (simp_all add: flags_def)
  have l: "testDataLoop flags spec 0 21600 4 0 []
        = Some [\<lparr> signature = \<lparr> table_name = ''nebula.test'', block_seq = 0, time_min = 0,
                                 time_max = 21600, spec_id = spec \<rparr>, batch = [] \<rparr>,
                \<lparr> signature = \<lparr> table_name = ''nebula.test'', block_seq = 2, time_min = 43200,
                                 time_max = 64800, spec_id = spec \<rparr>, batch = [] \<rparr>]" for spec
    by (simp add: testDataLoop.simps [of _ _ _ _ _ 0] testDataLoop.simps [of _ _ _ _ _ 2]
          testDataLoop.simps [of _ _ _ _ _ 4] add_block_def Let_def f)
  show ?thesis
    by (simp add: work_def loadNebulaTestData_def HOUR_SECONDS_def s4_spec_def test_spec_def
          mkIngestSpec_def test_table_def world0_def f l Let_def)
qed

section \<open>Swap\<close>

lemma step_sig_inv:
  "sig_inv tn spec (blocks st) \<Longrightarrow> sig_inv tn spec (blocks (step bRows tn spec tf row st))"
  by (auto simp: sig_inv_def step_blocks makeBlock_def)

lemma batchLoop_sig_inv:
  "sig_inv tn spec (blocks st) \<Longrightarrow> sig_inv tn spec (blocks (batchLoop bRows tn spec tf rows st))"
  by (induction rows arbitrary: st) (simp_all add: step_sig_inv)

lemma load_sig_inv: "sig_inv (name (m_table s)) (m_id s) (fst (load env s w))"
proof -
  have "sig_inv (name (m_table s)) (m_id s) (finish (name (m_table s)) (m_id s)
          (batchLoop bRows (name (m_table s)) (m_id s) tf rows (loop0 k)))" for bRows tf rows k
    using batchLoop_sig_inv [of "name (m_table s)" "m_id s" "loop0 k" bRows tf rows]
    by (auto simp: sig_inv_def finish_def makeBlock_def loop0_def)
  with load_cases [of env s w] show ?thesis by (auto simp: sig_inv_def)
qed

lemma removeSameSpec_foldl_subset:
  "set (foldl (\<lambda>m b. removeSameSpec (signature b) m) m bs) \<subseteq> set m"
proof (induction bs arbitrary: m)
  case Nil
  then show ?case by simp
next
  case (Cons b bs)
  have "set (removeSameSpec (signature b) m) \<subseteq> set m" by (auto simp: removeSameSpec_def)
  with Cons.IH [of "removeSameSpec (signature b) m"] show ?case by auto
qed

lemma removeSameSpec_foldl_none:
  assumes "bs \<noteq> []" and "sig_inv tn spec bs"
    and "x \<in> set (foldl (\<lambda>m b. removeSameSpec (signature b) m) m bs)"
  shows "\<not> (table_name (signature x) = tn \<and> spec_id (signature x) = spec)"
proof -
  from assms(1) obtain b bs' where bs: "bs = b # bs'" by (cases bs) auto
  with assms(3) removeSameSpec_foldl_subset [of "removeSameSpec (signature b) m" bs']
  have "x \<in> set (removeSameSpec (signature b) m)" by auto
  with assms(2) bs show ?thesis by (auto simp: removeSameSpec_def sameSpec_def sig_inv_def)
qed

lemma add_block_subset: "set (add_block ow b m) \<subseteq> insert b (set m)"
  by (auto simp: add_block_def)

lemma add_blocks_subset: "set (add_blocks ow bs m) \<subseteq> set m \<union> set bs"
  unfolding add_blocks_def
proof (induction bs arbitrary: m)
  case Nil
  then show ?case by simp
next
  case (Cons b bs)
  from Cons.IH [of "add_block ow b m"] add_block_subset [of ow b m] show ?case by auto
qed

text \<open>
  When the run emits at least one block, a successful Swap leaves no block of the spec
  in the block manager other than the emitted ones.
\<close>

lemma swap_replaces_same_spec:
  assumes "loader (m_table s) = ''Swap''" and "loader (m_table s) \<noteq> NTEST_LOADER env"
    and "source (m_table s) = S3"
    and "fst (load env s w) \<noteq> []"
    and "work env s w = Some (ok, w')"
    and "x \<in> set (bm w')"
    and "table_name (signature x) = name (m_table s)" and "spec_id (signature x) = m_id s"
  shows "ok \<and> x \<in> set (fst (load env s w))"
proof -
  let ?bs = "fst (load env s w)"
  let ?m1 = "foldl (\<lambda>m b. removeSameSpec (signature b) m) (bm w) ?bs"
  from assms(1,2,3,5) have ok: "ok" and w': "bm w' = add_blocks (overwrite env) ?bs ?m1"
    by (auto simp: work_def LOADER_SWAP_def loadSwap_unfold)
  from assms(6) w' add_blocks_subset [of "overwrite env" ?bs ?m1]
  have "x \<in> set ?m1 \<or> x \<in> set ?bs" by auto
  moreover have "x \<notin> set ?m1"
    using removeSameSpec_foldl_none [OF assms(4) load_sig_inv] assms(7,8) by blast
  ultimately show ?thesis using ok by simp
qed

text \<open>
  C3. The claim includes the input that yields zero blocks. There the loop over the
  emitted blocks calls \<open>removeSameSpec\<close> not once: with a block of the same table and
  spec installed before, a Swap of an object without rows returns true and the old block
  is still in the block manager.
\<close>

theorem swap_of_empty_file_keeps_old_blocks:
  "loader (m_table s3_swap_spec) = ''Swap'' \<and> source (m_table s3_swap_spec) = S3
   \<and> bm world_old = [old_block]
   \<and> table_name (signature old_block) = name (m_table s3_swap_spec)
   \<and> spec_id (signature old_block) = m_id s3_swap_spec
   \<and> fst (load flags s3_swap_spec world_old) = []
   \<and> map_option (\<lambda>(ok, w'). (ok, bm w')) (work flags s3_swap_spec world_old)
       = Some (True, [old_block])"
proof -
  have l: "fst (load flags s3_swap_spec world_old) = []"
    by (simp add: load_unfold ingest_def timeSwitch_def copy_def enroll_def finish_def Let_def
          s3_swap_spec_def world_old_def ex_defs)
  have ld: "loader (m_table s3_swap_spec) = ''Swap''" "NTEST_LOADER flags = ''NebulaTest''"
    "source (m_table s3_swap_spec) = S3"
    by (simp_all add: s3_swap_spec_def ex_defs)
  have "map_option (\<lambda>(ok, w'). (ok, bm w')) (work flags s3_swap_spec world_old)
       = Some (True, bm world_old)"
    by (simp add: work_def LOADER_SWAP_def loadSwap_unfold l add_blocks_def Let_def ld)
  with l ld show ?thesis
    by (simp add: world_old_def old_block_def makeBlock_def)
       (simp add: s3_swap_spec_def ex_defs decimal.simps)
qed

section \<open>The fetch stage\<close>

text \<open>
  C8. The claim has the object of the spec's path downloaded. For the spec of
  \<open>TestIngestSpec\<close> the path is \<open>nebula/v1.x\<close> and the id is \<open>test@nebula/v1.x@10\<close>;
  \<open>load\<close> copies the object named by the id from the bucket of the domain, and unlinks
  the temporary file afterwards.
\<close>

theorem load_copies_id_not_path:
  "m_path test_spec = ''nebula/v1.x'' \<and> m_domain test_spec = ''nebula''
   \<and> m_id test_spec = ''test@nebula/v1.x@10''
   \<and> fsops (snd (load flags test_spec world0))
       = [Copy ''nebula'' ''test@nebula/v1.x@10'' ''/tmp/nebula.0'', Unlink ''/tmp/nebula.0'']"
  by (simp add: load_fsops) (simp add: ex_defs decimal.simps)

section \<open>The time function and the row wrapper\<close>

text \<open>
  C7. The time function of a spec, read through \<open>readLong("_time_")\<close> of the wrapper:
  STATIC yields \<open>unixTimeValue\<close>; CURRENT yields the reading of the process clock at the
  call (and takes one reading); COLUMN yields \<open>Evidence::time\<close> of the row's string
  column \<open>colName\<close> under \<open>pattern\<close>; MACRO yields \<open>mdate\<close> of the spec for the pattern
  \<open>"date"\<close> and 0 for any other pattern; PROVIDED has no time function. \<open>isNull("_time_")\<close>
  of the wrapper is false.
\<close>

theorem time_function_by_type:
  "map_option (\<lambda>(sch', tf). RowWrapperWithTime_readLong \<lparr> m_timeFunc = tf, m_row = r \<rparr> ''_time_'' k)
     (timeSwitch env s sch)
   = (case type (timeSpec (m_table s)) of
        STATIC \<Rightarrow> Some (unixTimeValue (timeSpec (m_table s)), k)
      | CURRENT \<Rightarrow> Some (unix_timestamp env k, Suc k)
      | COLUMN \<Rightarrow> Some (Evidence_time env (readString r (colName (timeSpec (m_table s))))
                          (pattern (timeSpec (m_table s))), k)
      | MACRO \<Rightarrow> Some (if pattern (timeSpec (m_table s)) = ''date'' then m_mdate s else 0, k)
      | PROVIDED \<Rightarrow> None)
   \<and> RowWrapperWithTime_isNull rw ''_time_'' = False"
  by (cases "type (timeSpec (m_table s))")
     (simp_all add: timeSwitch_def RowWrapperWithTime_readLong_def RowWrapperWithTime_isNull_def
        TIME_COLUMN_def Let_def)

section \<open>Row counts of the blocks\<close>

lemma step_rows_inv:
  assumes "0 < unat bRows" and "rows_inv (unat bRows) st"
  shows "rows_inv (unat bRows) (step bRows tn spec tf row st)"
  using assms by (auto simp: rows_inv_def step_cur step_blocks makeBlock_def)

lemma batchLoop_rows_inv:
  assumes "0 < unat bRows" and "rows_inv (unat bRows) st"
  shows "rows_inv (unat bRows) (batchLoop bRows tn spec tf rows st)"
  using assms(2)
  by (induction rows arbitrary: st) (simp_all add: step_rows_inv [OF assms(1)])

lemma rows_inv_loop0: "rows_inv B (loop0 k)"
  by (simp add: rows_inv_def loop0_def)

lemma finish_sizes:
  assumes "0 < unat bRows" and "rows_inv (unat bRows) st"
  shows "(\<forall>b\<in>set (finish tn spec st). 1 \<le> length (batch b) \<and> length (batch b) \<le> unat bRows)
         \<and> (\<forall>b\<in>set (butlast (finish tn spec st)). length (batch b) = unat bRows)"
  using assms
  by (auto simp: finish_def rows_inv_def makeBlock_def butlast_append Suc_le_eq
        dest: in_set_butlastD)

lemma finish_no_rows: "finish tn spec (batchLoop bRows tn spec tf [] (loop0 k)) = []"
  by (simp add: finish_def loop0_def)

text \<open>
  C6, as the code has it. For a capacity \<open>B = block_max_rows\<close> of at least 1 and every
  row stream: every emitted block has between 1 and \<open>B\<close> rows, every block other than the
  last has exactly \<open>B\<close> rows, and a source without rows yields no block.
\<close>

theorem block_row_counts:
  assumes "0 < NBLOCK_MAX_ROWS env"
  shows "(\<forall>b\<in>set (fst (load env s w)).
            1 \<le> length (batch b) \<and> length (batch b) \<le> unat (NBLOCK_MAX_ROWS env))
         \<and> (\<forall>b\<in>set (butlast (fst (load env s w))). length (batch b) = unat (NBLOCK_MAX_ROWS env))
         \<and> (s3_object env (m_domain s) (m_id s) = [] \<longrightarrow> fst (load env s w) = [])"
proof -
  from assms have pos: "0 < unat (NBLOCK_MAX_ROWS env)" by (simp add: word_less_nat_alt)
  from load_cases [of env s w] show ?thesis
  proof
    assume "fst (load env s w) = []"
    then show ?thesis by simp
  next
    assume "\<exists>sch' tf. timeSwitch env s (TypeSerializer_from env (schema (m_table s))) = Some (sch', tf)
        \<and> fst (load env s w) =
            finish (name (m_table s)) (m_id s)
              (batchLoop (NBLOCK_MAX_ROWS env) (name (m_table s)) (m_id s) tf
                 (s3_object env (m_domain s) (m_id s)) (loop0 (ticks w)))"
    then obtain tf where l: "fst (load env s w) =
            finish (name (m_table s)) (m_id s)
              (batchLoop (NBLOCK_MAX_ROWS env) (name (m_table s)) (m_id s) tf
                 (s3_object env (m_domain s) (m_id s)) (loop0 (ticks w)))" by blast
    have inv: "rows_inv (unat (NBLOCK_MAX_ROWS env))
       (batchLoop (NBLOCK_MAX_ROWS env) (name (m_table s)) (m_id s) tf
                 (s3_object env (m_domain s) (m_id s)) (loop0 (ticks w)))"
      by (rule batchLoop_rows_inv [OF pos rows_inv_loop0])
    from finish_sizes [OF pos inv] l finish_no_rows show ?thesis by simp
  qed
qed

text \<open>
  C6 as stated fails for the capacity 0, which the flag admits: a source of one row
  yields two blocks, the first with no row and the second with one row.
\<close>

theorem zero_capacity_blocks:
  "NBLOCK_MAX_ROWS env_zero = 0
   \<and> map (\<lambda>b. length (batch b)) (fst (load env_zero s3_roll_spec world0)) = [0, 1]"
  by (simp add: run_defs env_zero_def s3_roll_spec_def ex_defs)

text \<open>With capacity 2, three rows yield blocks of 2 and 1 rows; no rows yield no block.\<close>

theorem block_row_counts_witness:
  "0 < NBLOCK_MAX_ROWS env_two
   \<and> map (\<lambda>b. length (batch b)) (fst (load env_two s3_roll_spec world0)) = [2, 1]
   \<and> list_all (\<lambda>b. 1 \<le> length (batch b) \<and> length (batch b) \<le> 2)
        (fst (load env_two s3_roll_spec world0))
   \<and> s3_object flags (m_domain s3_roll_spec) (m_id s3_roll_spec) = []
   \<and> fst (load flags s3_roll_spec world0) = []"
proof -
  have a: "0 < NBLOCK_MAX_ROWS env_two" by (simp add: env_two_def flags_def)
  have b: "0 < NBLOCK_MAX_ROWS flags" by (simp add: flags_def)
  have c: "s3_object flags (m_domain s3_roll_spec) (m_id s3_roll_spec) = []" by (simp add: flags_def)
  have d: "unat (NBLOCK_MAX_ROWS env_two) = 2" by (simp add: env_two_def flags_def)
  have e: "map (\<lambda>b. length (batch b)) (fst (load env_two s3_roll_spec world0)) = [2, 1]"
    by (simp add: run_defs env_two_def s3_roll_spec_def ex_defs)
  from block_row_counts [OF a, of s3_roll_spec world0] d
  have f: "list_all (\<lambda>b. 1 \<le> length (batch b) \<and> length (batch b) \<le> 2)
        (fst (load env_two s3_roll_spec world0))" by (simp add: list_all_iff)
  from block_row_counts [OF b, of s3_roll_spec world0] c
  have g: "fst (load flags s3_roll_spec world0) = []" by simp
  from a c e f g show ?thesis by simp
qed

section \<open>Time range of the blocks\<close>

lemma covers_snoc:
  "covers rg b \<Longrightarrow> covers (widen rg t) (b @ [(t, r)])"
proof (cases "b = []")
  case True
  assume "covers rg b"
  with True have rg: "rg = range0" by (simp add: covers_def)
  have "\<not> t < - 1 \<Longrightarrow> t = - 1"
    by (metis word_n1_ge order_le_less)
  moreover have "\<not> 0 < t \<Longrightarrow> t = 0"
    by (simp add: word_neq_0_conv [symmetric])
  ultimately show ?thesis using True rg by (auto simp: covers_def range0_def widen_def)
next
  case False
  assume "covers rg b"
  with False show ?thesis
    by (auto simp: covers_def widen_def not_less intro: order_trans less_imp_le)
qed

lemma timeSwitch_clockFree:
  assumes "timeSwitch env s sch = Some (sch', tf)" and "type (timeSpec (m_table s)) \<noteq> CURRENT"
  shows "clockFree tf"
  using assms
  by (cases "type (timeSpec (m_table s))")
     (auto simp: timeSwitch_def clockFree_def Let_def split: if_splits)

lemma step_range_inv:
  assumes "clockFree tf" and "range_inv st"
  shows "range_inv (step bRows tn spec tf row st)"
proof -
  from assms(1) obtain t0 where tf: "\<And>k. tf row k = (t0, k)"
    unfolding clockFree_def by blast
  have c0: "covers range0 []" by (simp add: covers_def)
  show ?thesis
  proof (cases "unat bRows \<le> length (cur st)")
    case True
    with assms(2) covers_snoc [OF c0, of t0 row] show ?thesis
      by (simp add: range_inv_def step_cur step_blocks step_range makeBlock_def Let_def)
         (simp add: tf)
  next
    case False
    with assms(2) covers_snoc [of "range st" "cur st" t0 row] show ?thesis
      by (simp add: range_inv_def step_cur step_blocks step_range makeBlock_def Let_def)
         (simp add: tf)
  qed
qed

lemma batchLoop_range_inv:
  assumes "clockFree tf" and "range_inv st"
  shows "range_inv (batchLoop bRows tn spec tf rows st)"
  using assms(2)
  by (induction rows arbitrary: st) (simp_all add: step_range_inv [OF assms(1)])

lemma range_inv_loop0: "range_inv (loop0 k)"
  by (simp add: range_inv_def covers_def loop0_def)

lemma finish_covers:
  assumes "range_inv st" and "b \<in> set (finish tn spec st)"
  shows "covers (time_min (signature b), time_max (signature b)) (batch b)"
  using assms by (auto simp: finish_def range_inv_def makeBlock_def split: if_splits)

text \<open>
  In the order of \<open>size_t\<close>, in which the loop compares: for a spec whose time type is
  not CURRENT, the range of an emitted block bounds the time of every row stored in it,
  and its two ends are times of rows stored in it.
\<close>

lemma block_time_range_size_t:
  assumes "type (timeSpec (m_table s)) \<noteq> CURRENT"
    and "b \<in> set (fst (load env s w))"
    and "(t, r) \<in> set (batch b)"
  shows "time_min (signature b) \<le> t \<and> t \<le> time_max (signature b)
         \<and> time_min (signature b) \<in> fst ` set (batch b)
         \<and> time_max (signature b) \<in> fst ` set (batch b)"
proof -
  from load_cases [of env s w] assms(2)
  obtain sch' tf where ts: "timeSwitch env s (TypeSerializer_from env (schema (m_table s))) = Some (sch', tf)"
    and l: "fst (load env s w) =
            finish (name (m_table s)) (m_id s)
              (batchLoop (NBLOCK_MAX_ROWS env) (name (m_table s)) (m_id s) tf
                 (s3_object env (m_domain s) (m_id s)) (loop0 (ticks w)))"
    by auto
  have cf: "clockFree tf" by (rule timeSwitch_clockFree [OF ts assms(1)])
  have "range_inv (batchLoop (NBLOCK_MAX_ROWS env) (name (m_table s)) (m_id s) tf
                 (s3_object env (m_domain s) (m_id s)) (loop0 (ticks w)))"
    by (rule batchLoop_range_inv [OF cf range_inv_loop0])
  from finish_covers [OF this] assms(2) l
  have "covers (time_min (signature b), time_max (signature b)) (batch b)" by simp
  with assms(3) show ?thesis by (auto simp: covers_def split: if_splits)
qed

lemma sint_nonneg_uint: "0 \<le> sint (x :: 64 word) \<Longrightarrow> sint x = uint x"
proof -
  assume h: "0 \<le> sint x"
  have "sint x < 2 ^ 64" using sint_less [of x] by simp
  with h show ?thesis by (simp add: uint_sint take_bit_int_eq_self)
qed

text \<open>
  C5, as the code has it. The stored row times are \<open>int64_t\<close> values (read with
  \<open>sint\<close>), the ends of a range are \<open>size_t\<close> values (read with \<open>uint\<close>). For a spec
  whose time type is not CURRENT and every emitted block whose stored row times are all
  non-negative: \<open>time_min \<le> t \<le> time_max\<close> for every row time \<open>t\<close> stored in the block,
  and \<open>time_min\<close> and \<open>time_max\<close> are themselves row times stored in that block, so the
  range is that of the rows of the block alone. Nothing is stated of a block that holds
  a negative row time.
\<close>

theorem block_time_range_nonneg:
  assumes "type (timeSpec (m_table s)) \<noteq> CURRENT"
    and "b \<in> set (fst (load env s w))"
    and "\<forall>x\<in>set (batch b). 0 \<le> sint (fst x)"
    and "(t, r) \<in> set (batch b)"
  shows "uint (time_min (signature b)) \<le> sint t \<and> sint t \<le> uint (time_max (signature b))
         \<and> uint (time_min (signature b)) \<in> (\<lambda>x. sint (fst x)) ` set (batch b)
         \<and> uint (time_max (signature b)) \<in> (\<lambda>x. sint (fst x)) ` set (batch b)"
proof -
  from block_time_range_size_t [OF assms(1,2,4)]
  have le: "time_min (signature b) \<le> t" "t \<le> time_max (signature b)"
    and mn: "time_min (signature b) \<in> fst ` set (batch b)"
    and mx: "time_max (signature b) \<in> fst ` set (batch b)" by simp_all
  from assms(3,4) have "0 \<le> sint t" by force
  then have t: "sint t = uint t" by (rule sint_nonneg_uint)
  from mn obtain x where x: "x \<in> set (batch b)" "fst x = time_min (signature b)" by auto
  with assms(3) have "sint (fst x) = uint (time_min (signature b))"
    using sint_nonneg_uint [of "fst x"] by auto
  with x(1) have 1: "uint (time_min (signature b)) \<in> (\<lambda>x. sint (fst x)) ` set (batch b)"
    by (metis image_eqI)
  from mx obtain y where y: "y \<in> set (batch b)" "fst y = time_max (signature b)" by auto
  with assms(3) have "sint (fst y) = uint (time_max (signature b))"
    using sint_nonneg_uint [of "fst y"] by auto
  with y(1) have 2: "uint (time_max (signature b)) \<in> (\<lambda>x. sint (fst x)) ` set (batch b)"
    by (metis image_eqI)
  from le t 1 2 show ?thesis by (simp add: word_le_def)
qed

text \<open>
  C5 as stated fails for the time type CURRENT: the clock is read once for the range and
  once more when the row is added to the batch. With a clock that reads 100 and then
  101, a successful Roll of one row installs a block with the range \<open>(100, 100)\<close> and the
  stored time 101.
\<close>

theorem current_time_outside_range:
  "loader (m_table current_roll_spec) = ''Roll'' \<and> source (m_table current_roll_spec) = S3
   \<and> type (timeSpec (m_table current_roll_spec)) = CURRENT
   \<and> map_option (\<lambda>(ok, w'). (ok, map (\<lambda>b. (time_min (signature b), time_max (signature b),
                                             map fst (batch b))) (bm w')))
       (work env_one current_roll_spec world0)
     = Some (True, [(100, 100, [101])])"
  by (simp add: work_def LOADER_SWAP_def LOADER_ROLL_def loadRoll_unfold add_blocks_def add_block_def
        run_defs env_one_def current_roll_spec_def ex_defs)

text \<open>Two rows with the column times 5 and 2 make one block with the range \<open>(2, 5)\<close>.\<close>

theorem block_time_range_nonneg_witness:
  "type (timeSpec (m_table column_roll_spec)) \<noteq> CURRENT
   \<and> column_block \<in> set (fst (load env_col column_roll_spec world0))
   \<and> list_all (\<lambda>x. 0 \<le> sint (fst x)) (batch column_block)
   \<and> map (\<lambda>x. sint (fst x)) (batch column_block) = [5, 2]
   \<and> (5, long_row) \<in> set (batch column_block)
   \<and> uint (time_min (signature column_block)) = 2 \<and> uint (time_max (signature column_block)) = 5
   \<and> uint (time_min (signature column_block)) \<le> sint (5 :: 64 word)
   \<and> sint (5 :: 64 word) \<le> uint (time_max (signature column_block))"
proof -
  have a: "type (timeSpec (m_table column_roll_spec)) \<noteq> CURRENT"
    by (simp add: column_roll_spec_def ex_defs)
  have "fst (load env_col column_roll_spec world0) = [column_block]"
    by (simp add: run_defs env_col_def column_roll_spec_def ex_defs column_block_def
          long_row_def short_row_def decimal.simps)
  then have b: "column_block \<in> set (fst (load env_col column_roll_spec world0))" by simp
  have c: "(5, long_row) \<in> set (batch column_block)"
    by (simp add: column_block_def makeBlock_def)
  have d: "uint (time_min (signature column_block)) = 2" "uint (time_max (signature column_block)) = 5"
    by (simp_all add: column_block_def makeBlock_def)
  have e: "\<forall>x\<in>set (batch column_block). 0 \<le> sint (fst x)"
    by (simp add: column_block_def makeBlock_def)
  have f: "map (\<lambda>x. sint (fst x)) (batch column_block) = [5, 2]"
    by (simp add: column_block_def makeBlock_def)
  from e have g: "list_all (\<lambda>x. 0 \<le> sint (fst x)) (batch column_block)"
    by (simp add: list_all_iff)
  from block_time_range_nonneg [OF a b e c] a b c d f g show ?thesis by simp
qed

text \<open>
  A negative row time is outside of this: \<open>size_t time = rw.readLong(...)\<close> converts it
  to a large unsigned value. Two rows with the column times \<open>-5\<close> and 3 make a block
  whose range is \<open>(3, 2^64 - 5)\<close>, so that the stored time \<open>-5\<close> is below \<open>time_min\<close>.
\<close>

lemma negative_time_wraps:
  "type (timeSpec (m_table column_roll_spec)) = COLUMN
   \<and> map (\<lambda>b. (uint (time_min (signature b)), uint (time_max (signature b)),
                map (\<lambda>x. sint (fst x)) (batch b)))
       (fst (load env_neg column_roll_spec world0))
     = [(3, 18446744073709551611, [- 5, 3])]"
  by (simp add: run_defs env_neg_def column_roll_spec_def ex_defs short_row_def long_row_def
        word_gt_0)

section \<open>Rollback of the flat buffer\<close>

lemma FlatBuffer_rollback_add: "FlatBuffer_rollback (FlatBuffer_add ser r fb) = Inr fb"
  by (simp add: FlatBuffer_rollback_def FlatBuffer_add_def)

text \<open>
  C9. For every sequence of adds and every row, \<open>add(r)\<close> followed by \<open>rollback()\<close>
  succeeds and gives back the state after the sequence alone (schema, bytes and row
  offsets, so every stored row reads back as before), and the row count that \<open>add\<close> had
  incremented is the one before again.
\<close>

theorem FlatBuffer_add_then_rollback:
  "(case FlatBuffer_rollback (FlatBuffer_add ser r (FlatBuffer_adds ser rs (FlatBuffer_init sch))) of
      Inl e \<Rightarrow> False
    | Inr fb' \<Rightarrow>
        fb' = FlatBuffer_adds ser rs (FlatBuffer_init sch)
        \<and> Suc (FlatBuffer_getRows fb')
            = FlatBuffer_getRows (FlatBuffer_add ser r (FlatBuffer_adds ser rs (FlatBuffer_init sch)))
        \<and> FlatBuffer_row fb' i = FlatBuffer_row (FlatBuffer_adds ser rs (FlatBuffer_init sch)) i)"
  by (simp add: FlatBuffer_rollback_add) (simp add: FlatBuffer_getRows_def FlatBuffer_add_def)

end
